theory Spec2Isabelle
  imports Complex_Main "HOL-Library.Char_ord" "HOL-Library.List_Lexorder"
begin

section \<open>Values, frames and the pandas operations used by app.py\<close>

text \<open>
  A pandas \<open>Timestamp\<close> is a calendar date with a time of day. The month period of a
  timestamp (\<open>dt.to_period('M')\<close>) is stored by pandas as its ordinal: the number of
  months since January 1970. Ordinals are ordered as the months are.
\<close>

datatype timestamp = Timestamp (ts_year: int) (ts_month: int) (ts_day: int) (ts_nanos: int)

definition month_ordinal :: "timestamp \<Rightarrow> int" where
  "month_ordinal t = (ts_year t - 1970) * 12 + (ts_month t - 1)"

text \<open>
  The values a cell of the program's frames can hold. \<open>NaN\<close> stands for every missing
  value (\<open>None\<close>, \<open>NaN\<close>, \<open>NaT\<close>): \<open>dropna\<close> and \<open>fillna\<close> treat them alike. Amounts are
  Python floats; every finite float is a rational number, and the model adds, subtracts
  and divides them exactly (rounding and the infinities are not modelled).
\<close>

datatype cell = NaN | Str string | Num rat | Datetime timestamp | Period int

datatype error = KeyError string | AttributeError string

text \<open>
  A DataFrame: its column labels in order, and its rows in order, each row holding one
  cell per column. The row labels play no part in app.py (every concat passes
  \<open>ignore_index=True\<close> and every column assignment takes a series derived from the same
  frame), so rows are aligned by position.
\<close>

record frame =
  columns :: "string list"
  rows :: "cell list list"

definition rectangular :: "frame \<Rightarrow> bool" where
  "rectangular f =
     (distinct (columns f) \<and> list_all (\<lambda>r. length r = length (columns f)) (rows f))"

fun get_loc :: "string list \<Rightarrow> string \<Rightarrow> nat option" where
  "get_loc [] c = None"
| "get_loc (x # xs) c = (if x = c then Some 0 else map_option Suc (get_loc xs c))"

text \<open>\<open>df[c]\<close>: the column as a series, or KeyError.\<close>

definition getitem :: "frame \<Rightarrow> string \<Rightarrow> error + cell list" where
  "getitem f c =
     (case get_loc (columns f) c of
        None \<Rightarrow> Inl (KeyError c)
      | Some i \<Rightarrow> Inr (map (\<lambda>r. r ! i) (rows f)))"

text \<open>\<open>df[c] = series\<close>: overwrites the column, or appends it as the last one.\<close>

definition setitem :: "frame \<Rightarrow> string \<Rightarrow> cell list \<Rightarrow> frame" where
  "setitem f c vs =
     (case get_loc (columns f) c of
        Some i \<Rightarrow> f\<lparr>rows := map2 (\<lambda>r v. r[i := v]) (rows f) vs\<rparr>
      | None \<Rightarrow> f\<lparr>columns := columns f @ [c], rows := map2 (\<lambda>r v. r @ [v]) (rows f) vs\<rparr>)"

text \<open>\<open>df.dropna()\<close>: a new frame without the rows that miss a value in any column.\<close>

definition dropna :: "frame \<Rightarrow> frame" where
  "dropna f = f\<lparr>rows := filter (list_all (\<lambda>x. x \<noteq> NaN)) (rows f)\<rparr>"

text \<open>\<open>series.fillna(v)\<close>.\<close>

definition fillna :: "cell \<Rightarrow> cell list \<Rightarrow> cell list" where
  "fillna v xs = map (\<lambda>x. if x = NaN then v else x) xs"

text \<open>
  \<open>pd.concat([a, b], ignore_index=True)\<close>: the columns of \<open>a\<close> followed by the new ones
  of \<open>b\<close>; the rows of \<open>a\<close>, then those of \<open>b\<close>, with \<open>NaN\<close> where a frame lacks a column.
\<close>

definition reindex :: "string list \<Rightarrow> string list \<Rightarrow> cell list \<Rightarrow> cell list" where
  "reindex src dst r = map (\<lambda>c. case get_loc src c of None \<Rightarrow> NaN | Some i \<Rightarrow> r ! i) dst"

definition concat_frames :: "frame \<Rightarrow> frame \<Rightarrow> frame" where
  "concat_frames a b =
     (let cs = columns a @ filter (\<lambda>c. c \<notin> set (columns a)) (columns b)
      in \<lparr>columns = cs,
          rows = map (reindex (columns a) cs) (rows a) @ map (reindex (columns b) cs) (rows b)\<rparr>)"

text \<open>
  The parsers of the pandas library are not part of the repository; the model takes them
  as parameters. \<open>parse_datetime\<close> reads a string as a timestamp (it is given the whole
  series, since pandas may infer the format from the other elements), \<open>parse_number\<close>
  reads a string as a number, \<open>datetime_of_number\<close> reads a number as a timestamp (an
  offset from the epoch). \<open>None\<close> is a value that does not convert, which
  \<open>errors='coerce'\<close> turns into a missing value.
\<close>

record pandas =
  parse_datetime :: "cell list \<Rightarrow> string \<Rightarrow> timestamp option"
  parse_number :: "string \<Rightarrow> rat option"
  datetime_of_number :: "rat \<Rightarrow> timestamp option"

text \<open>
  \<open>pd.to_datetime(series, errors='coerce')\<close>, element by element: a timestamp stays,
  a string and a number convert or become missing, anything else becomes missing.
\<close>

definition datetime_cell :: "pandas \<Rightarrow> cell list \<Rightarrow> cell \<Rightarrow> cell" where
  "datetime_cell P xs x =
     (case x of
        NaN \<Rightarrow> NaN
      | Str s \<Rightarrow> (case parse_datetime P xs s of None \<Rightarrow> NaN | Some t \<Rightarrow> Datetime t)
      | Num n \<Rightarrow> (case datetime_of_number P n of None \<Rightarrow> NaN | Some t \<Rightarrow> Datetime t)
      | Datetime t \<Rightarrow> Datetime t
      | Period p \<Rightarrow> NaN)"

definition to_datetime :: "pandas \<Rightarrow> cell list \<Rightarrow> cell list" where
  "to_datetime P xs = map (datetime_cell P xs) xs"

text \<open>\<open>pd.to_numeric(series, errors='coerce')\<close>.\<close>

definition numeric_cell :: "pandas \<Rightarrow> cell \<Rightarrow> cell" where
  "numeric_cell P x =
     (case x of
        NaN \<Rightarrow> NaN
      | Str s \<Rightarrow> (case parse_number P s of None \<Rightarrow> NaN | Some n \<Rightarrow> Num n)
      | Num n \<Rightarrow> Num n
      | Datetime t \<Rightarrow> NaN
      | Period p \<Rightarrow> NaN)"

definition to_numeric :: "pandas \<Rightarrow> cell list \<Rightarrow> cell list" where
  "to_numeric P xs = map (numeric_cell P) xs"

text \<open>\<open>series.dt.to_period('M')\<close> on a datetime series.\<close>

definition period_cell :: "cell \<Rightarrow> cell" where
  "period_cell x = (case x of Datetime t \<Rightarrow> Period (month_ordinal t) | _ \<Rightarrow> NaN)"

definition dt_to_period_M :: "cell list \<Rightarrow> cell list" where
  "dt_to_period_M xs = map period_cell xs"

section \<open>app.py\<close>

definition CATEGORIES :: "string list" where
  "CATEGORIES =
     [''Food'', ''Transport'', ''Entertainment'', ''Utilities'', ''Health'', ''Shopping'',
      ''Other'']"

text \<open>\<open>lambda x: x if x in CATEGORIES else 'Other'\<close>\<close>

definition category_or_other :: "cell \<Rightarrow> cell" where
  "category_or_other x =
     (case x of
        Str s \<Rightarrow> if s \<in> set CATEGORIES then x else Str ''Other''
      | _ \<Rightarrow> Str ''Other'')"

subsection \<open>The heap of frames\<close>

text \<open>
  Frames are Python objects: \<open>df['Date'] = ...\<close> changes the object \<open>df\<close> refers to, and
  every other name of that object sees the change. The heap is the list of the frames
  allocated so far and a reference is an index into it.
\<close>

type_synonym heap = "frame list"
type_synonym ref = nat

definition alloc :: "heap \<Rightarrow> frame \<Rightarrow> heap \<times> ref" where
  "alloc h f = (h @ [f], length h)"

text \<open>\<open>df.copy()\<close>\<close>

definition copy :: "heap \<Rightarrow> ref \<Rightarrow> heap \<times> ref" where
  "copy h r = alloc h (h ! r)"

subsection \<open>clean_data (lines 65 to 73)\<close>

text \<open>
  The function takes the reference it is called with, copies the frame and works on the
  copy; \<open>dropna\<close> returns a new frame, to which \<open>df\<close> is rebound. The result is the
  heap after the call and either the exception raised (a column that is read is missing)
  or the reference returned. The decorator \<open>st.cache_data\<close> stores results by the content
  of the argument and is not modelled.
\<close>

definition clean_data :: "pandas \<Rightarrow> heap \<Rightarrow> ref \<Rightarrow> heap \<times> (error + ref)" where
  "clean_data P h0 df0 =
     (let (h1, df) = copy h0 df0 in
      case getitem (h1 ! df) ''Date'' of
        Inl e \<Rightarrow> (h1, Inl e)
      | Inr dates \<Rightarrow>
      let h2 = list_update h1 df (setitem (h1 ! df) ''Date'' (to_datetime P dates)) in
      case getitem (h2 ! df) ''Amount'' of
        Inl e \<Rightarrow> (h2, Inl e)
      | Inr amounts \<Rightarrow>
      let h3 = list_update h2 df (setitem (h2 ! df) ''Amount'' (to_numeric P amounts));
          (h4, df') = alloc h3 (dropna (h3 ! df)) in
      case getitem (h4 ! df') ''Category'' of
        Inl e \<Rightarrow> (h4, Inl e)
      | Inr cats \<Rightarrow>
      let h5 = list_update h4 df' (setitem (h4 ! df') ''Category'' (map category_or_other cats)) in
      case getitem (h5 ! df') ''Date'' of
        Inl e \<Rightarrow> (h5, Inl e)
      | Inr dates' \<Rightarrow>
      let h6 = list_update h5 df' (setitem (h5 ! df') ''Month'' (dt_to_period_M dates')) in
      (h6, Inr df'))"

text \<open>The frame a call of \<open>clean_data\<close> returns, when the ledger is the only object.\<close>

definition cleaned :: "pandas \<Rightarrow> frame \<Rightarrow> error + frame" where
  "cleaned P f =
     (case clean_data P [f] 0 of
        (h, Inl e) \<Rightarrow> Inl e
      | (h, Inr r) \<Rightarrow> Inr (h ! r))"

subsection \<open>Reductions of a series\<close>

text \<open>
  \<open>series.sum()\<close> skips missing values. The column it is applied to is the Amount column
  after \<open>to_numeric\<close>, which holds numbers and missing values only.
\<close>

definition number_of :: "cell \<Rightarrow> rat" where
  "number_of x = (case x of Num n \<Rightarrow> n | _ \<Rightarrow> 0)"

definition series_sum :: "cell list \<Rightarrow> rat" where
  "series_sum xs = sum_list (map number_of xs)"

definition period_key :: "cell \<Rightarrow> int option" where
  "period_key x = (case x of Period p \<Rightarrow> Some p | _ \<Rightarrow> None)"

definition str_key :: "cell \<Rightarrow> string option" where
  "str_key x = (case x of Str s \<Rightarrow> Some s | _ \<Rightarrow> None)"

text \<open>\<open>series.max()\<close> of a period series: the latest period, missing values skipped.\<close>

definition series_max :: "cell list \<Rightarrow> cell" where
  "series_max xs =
     (case List.map_filter period_key xs of
        [] \<Rightarrow> NaN
      | p # ps \<Rightarrow> Period (fold max ps p))"

text \<open>\<open>series == v\<close>: a missing value equals nothing.\<close>

definition series_eq :: "cell list \<Rightarrow> cell \<Rightarrow> bool list" where
  "series_eq xs v = map (\<lambda>x. x = v \<and> x \<noteq> NaN) xs"

text \<open>\<open>df[mask]\<close>: the rows where the mask holds.\<close>

definition getitem_mask :: "frame \<Rightarrow> bool list \<Rightarrow> frame" where
  "getitem_mask f keep = f\<lparr>rows := map fst (filter snd (zip (rows f) keep))\<rparr>"

text \<open>\<open>df[[c1, ..., cn]]\<close>: the frame of these columns, or KeyError.\<close>

fun getitem_list :: "frame \<Rightarrow> string list \<Rightarrow> error + nat list" where
  "getitem_list f [] = Inr []"
| "getitem_list f (c # cs) =
     (case get_loc (columns f) c of
        None \<Rightarrow> Inl (KeyError c)
      | Some i \<Rightarrow> (case getitem_list f cs of Inl e \<Rightarrow> Inl e | Inr js \<Rightarrow> Inr (i # js)))"

definition select_columns :: "frame \<Rightarrow> string list \<Rightarrow> error + frame" where
  "select_columns f cs =
     (case getitem_list f cs of
        Inl e \<Rightarrow> Inl e
      | Inr js \<Rightarrow> Inr \<lparr>columns = cs, rows = map (\<lambda>r. map (\<lambda>j. r ! j) js) (rows f)\<rparr>)"

text \<open>
  \<open>df.groupby(by)[col].sum()\<close>: one entry per key present, the keys sorted, rows with a
  missing key left out. \<open>key_of\<close> reads the key of the column's type (a period for Month,
  a string for Category).
\<close>

definition groupby_sum ::
  "(cell \<Rightarrow> 'k::linorder option) \<Rightarrow> frame \<Rightarrow> string \<Rightarrow> string \<Rightarrow> error + ('k \<times> rat) list" where
  "groupby_sum key_of f by col =
     (case getitem f by of
        Inl e \<Rightarrow> Inl e
      | Inr ks \<Rightarrow>
     (case getitem f col of
        Inl e \<Rightarrow> Inl e
      | Inr vs \<Rightarrow>
         let kvs = zip (map key_of ks) vs;
             keys = sort (remdups (List.map_filter key_of ks))
         in Inr (map (\<lambda>k. (k, series_sum (map snd (filter (\<lambda>kv. fst kv = Some k) kvs)))) keys)))"

text \<open>\<open>series.mean()\<close>: no value for an empty series.\<close>

definition mean :: "rat list \<Rightarrow> rat option" where
  "mean xs = (if xs = [] then None else Some (sum_list xs / of_nat (length xs)))"

subsection \<open>Session state and the sidebar (lines 11 to 62)\<close>

record session =
  df :: ref
  budget :: rat

datatype message =
    Added
  | AmountMustBePositive
  | Uploaded nat
  | BudgetAlert rat rat rat
  | GetStarted

definition new_frame :: frame where
  "new_frame = \<lparr>columns = [''Date'', ''Category'', ''Amount'', ''Description''], rows = []\<rparr>"

text \<open>The Add Expense button (lines 29 to 41). \<open>description or 'N/A'\<close> is the placeholder
  for an empty description.\<close>

definition add_expense ::
  "heap \<Rightarrow> session \<Rightarrow> timestamp \<Rightarrow> string \<Rightarrow> rat \<Rightarrow> string \<Rightarrow> heap \<times> session \<times> message" where
  "add_expense h s expense_date category amount description =
     (if amount > 0 then
        let new_row =
              \<lparr>columns = [''Date'', ''Category'', ''Amount'', ''Description''],
               rows = [[Datetime expense_date, Str category, Num amount,
                        Str (if description = [] then ''N/A'' else description)]]\<rparr>;
            (h', r) = alloc h (concat_frames (h ! df s) new_row)
        in (h', s\<lparr>df := r\<rparr>, Added)
      else (h, s, AmountMustBePositive))"

text \<open>The Set Budget button (lines 46 to 48).\<close>

definition set_budget :: "session \<Rightarrow> rat \<Rightarrow> session" where
  "set_budget s budget_input = s\<lparr>budget := budget_input\<rparr>"

text \<open>
  \<open>df.get(key, default)\<close> returns the column when the frame has it and the default
  otherwise; the default given on line 59 is the string \<open>'N/A'\<close>, which has no method
  \<open>fillna\<close>.
\<close>

datatype pyvalue = Series "cell list" | Scalar cell

definition frame_get :: "frame \<Rightarrow> string \<Rightarrow> cell \<Rightarrow> pyvalue" where
  "frame_get f key dflt =
     (case getitem f key of Inr xs \<Rightarrow> Series xs | Inl e \<Rightarrow> Scalar dflt)"

definition call_fillna :: "pyvalue \<Rightarrow> cell \<Rightarrow> error + cell list" where
  "call_fillna v x =
     (case v of
        Series xs \<Rightarrow> Inr (fillna x xs)
      | Scalar c \<Rightarrow> Inl (AttributeError ''fillna''))"

text \<open>
  The CSV upload (lines 52 to 62), from the frame \<open>pd.read_csv\<close> returned, an object no
  other name refers to. The result is the heap, the session and either the exception that
  ended the run or the messages shown (none when the guard of line 54 fails).
\<close>

definition upload_csv ::
  "pandas \<Rightarrow> heap \<Rightarrow> session \<Rightarrow> frame \<Rightarrow> heap \<times> session \<times> (error + message list)" where
  "upload_csv P h s df_upload =
     (if list_all (\<lambda>col. col \<in> set (columns df_upload)) [''Date'', ''Category'', ''Amount'']
      then
        case getitem df_upload ''Date'' of
          Inl e \<Rightarrow> (h, s, Inl e)
        | Inr dates \<Rightarrow>
        let u1 = setitem df_upload ''Date'' (to_datetime P dates) in
        case getitem u1 ''Amount'' of
          Inl e \<Rightarrow> (h, s, Inl e)
        | Inr amounts \<Rightarrow>
        let u2 = setitem u1 ''Amount'' (to_numeric P amounts);
            u3 = dropna u2 in
        case getitem u3 ''Category'' of
          Inl e \<Rightarrow> (h, s, Inl e)
        | Inr cats \<Rightarrow>
        let u4 = setitem u3 ''Category'' (map category_or_other cats) in
        case call_fillna (frame_get u4 ''Description'' (Str ''N/A'')) (Str ''N/A'') of
          Inl e \<Rightarrow> (h, s, Inl e)
        | Inr descriptions \<Rightarrow>
        let u5 = setitem u4 ''Description'' descriptions;
            (h', r) = alloc h (concat_frames (h ! df s) u5)
        in (h', s\<lparr>df := r\<rparr>, Inr [Uploaded (length (rows u5))])
      else (h, s, Inr []))"

subsection \<open>The dashboard (lines 76 to 142)\<close>

text \<open>The budget alert (lines 83 to 87): the alert carries the month's total, the budget
  and the overage.\<close>

definition budget_alert :: "frame \<Rightarrow> rat \<Rightarrow> error + message option" where
  "budget_alert df_clean b =
     (if b > 0 then
        case getitem df_clean ''Month'' of
          Inl e \<Rightarrow> Inl e
        | Inr months \<Rightarrow>
        let current_month = series_max months in
        case getitem (getitem_mask df_clean (series_eq months current_month)) ''Amount'' of
          Inl e \<Rightarrow> Inl e
        | Inr amounts \<Rightarrow>
        let monthly_total = series_sum amounts in
        if monthly_total > b
        then Inr (Some (BudgetAlert monthly_total b (monthly_total - b)))
        else Inr None
      else Inr None)"

definition total_spent :: "frame \<Rightarrow> error + rat" where
  "total_spent df_clean =
     (case getitem df_clean ''Amount'' of Inl e \<Rightarrow> Inl e | Inr xs \<Rightarrow> Inr (series_sum xs))"

definition monthly_sum :: "frame \<Rightarrow> error + (int \<times> rat) list" where
  "monthly_sum df_clean = groupby_sum period_key df_clean ''Month'' ''Amount''"

definition cat_sum :: "frame \<Rightarrow> error + (string \<times> rat) list" where
  "cat_sum df_clean = groupby_sum str_key df_clean ''Category'' ''Amount''"

definition avg_monthly :: "frame \<Rightarrow> error + rat option" where
  "avg_monthly df_clean =
     (case monthly_sum df_clean of Inl e \<Rightarrow> Inl e | Inr g \<Rightarrow> Inr (mean (map snd g)))"

definition num_entries :: "frame \<Rightarrow> nat" where
  "num_entries df_clean = length (rows df_clean)"

text \<open>
  The report (lines 127 to 133). A sheet is its name, its header row and its data rows.
  \<open>to_excel(index=False)\<close> writes the columns of the frame; the two summaries are
  written with their index, the group key, as first column.
\<close>

record sheet =
  sheet_name :: string
  header :: "string list"
  body :: "cell list list"

definition to_excel :: "frame \<Rightarrow> string \<Rightarrow> sheet" where
  "to_excel f name = \<lparr>sheet_name = name, header = columns f, body = rows f\<rparr>"

definition summary_to_excel ::
  "('k \<Rightarrow> cell) \<Rightarrow> string \<Rightarrow> ('k \<times> rat) list \<Rightarrow> string \<Rightarrow> sheet" where
  "summary_to_excel cell_of by g name =
     \<lparr>sheet_name = name, header = [by, ''Amount''],
      body = map (\<lambda>kv. [cell_of (fst kv), Num (snd kv)]) g\<rparr>"

definition export_report :: "frame \<Rightarrow> error + sheet list" where
  "export_report df_clean =
     (let expenses = to_excel df_clean ''Expenses'' in
      case cat_sum df_clean of
        Inl e \<Rightarrow> Inl e
      | Inr summary_cat \<Rightarrow>
      case monthly_sum df_clean of
        Inl e \<Rightarrow> Inl e
      | Inr summary_month \<Rightarrow>
        Inr [expenses,
             summary_to_excel Str ''Category'' summary_cat ''Category Summary'',
             summary_to_excel Period ''Month'' summary_month ''Monthly Summary''])"

record view =
  alert :: "message option"
  metric_total :: rat
  metric_avg :: "rat option"
  metric_entries :: nat
  table :: frame
  pie :: "(string \<times> rat) list"
  bar :: "(int \<times> rat) list"
  report :: "sheet list"

datatype page = Empty message | Dashboard view

definition dashboard ::
  "pandas \<Rightarrow> heap \<Rightarrow> session \<Rightarrow> heap \<times> session \<times> (error + page)" where
  "dashboard P h s =
     (case clean_data P h (df s) of
        (h', Inl e) \<Rightarrow> (h', s, Inl e)
      | (h', Inr r) \<Rightarrow>
        let df_clean = h' ! r in
        if rows df_clean = [] then (h', s, Inr (Empty GetStarted))
        else
          (h', s,
           case budget_alert df_clean (budget s) of Inl e \<Rightarrow> Inl e | Inr a \<Rightarrow>
           case total_spent df_clean of Inl e \<Rightarrow> Inl e | Inr t \<Rightarrow>
           case avg_monthly df_clean of Inl e \<Rightarrow> Inl e | Inr m \<Rightarrow>
           case select_columns df_clean [''Date'', ''Category'', ''Amount'', ''Description''] of
             Inl e \<Rightarrow> Inl e | Inr tb \<Rightarrow>
           case cat_sum df_clean of Inl e \<Rightarrow> Inl e | Inr cs \<Rightarrow>
           case monthly_sum df_clean of Inl e \<Rightarrow> Inl e | Inr ms \<Rightarrow>
           case export_report df_clean of Inl e \<Rightarrow> Inl e | Inr sheets \<Rightarrow>
             Inr (Dashboard
               \<lparr>alert = a, metric_total = t, metric_avg = m,
                metric_entries = num_entries df_clean, table = tb, pie = cs, bar = ms,
                report = sheets\<rparr>)))"

section \<open>What the specification says, in the terms of the model\<close>

text \<open>The kinds of cell the invariants of the cleaned ledger speak of.\<close>

definition is_datetime :: "cell \<Rightarrow> bool" where
  "is_datetime x = (case x of Datetime t \<Rightarrow> True | _ \<Rightarrow> False)"

definition is_number :: "cell \<Rightarrow> bool" where
  "is_number x = (case x of Num n \<Rightarrow> True | _ \<Rightarrow> False)"

definition is_nonneg_number :: "cell \<Rightarrow> bool" where
  "is_nonneg_number x = (case x of Num n \<Rightarrow> 0 \<le> n | _ \<Rightarrow> False)"

definition is_category :: "cell \<Rightarrow> bool" where
  "is_category x = (case x of Str s \<Rightarrow> s \<in> set CATEGORIES | _ \<Rightarrow> False)"

definition no_missing :: "frame \<Rightarrow> bool" where
  "no_missing f = list_all (list_all (\<lambda>x. x \<noteq> NaN)) (rows f)"

text \<open>
  A cleaned ledger: every record has a timestamp as date, a number as amount, one of
  the seven categories, no missing value, and the month of its date in the Month column.
\<close>

definition clean_ledger :: "frame \<Rightarrow> bool" where
  "clean_ledger d =
     (rectangular d \<and> no_missing d \<and>
      (case getitem d ''Date'' of
         Inl e \<Rightarrow> False
       | Inr ds \<Rightarrow> list_all is_datetime ds \<and> getitem d ''Month'' = Inr (dt_to_period_M ds)) \<and>
      (case getitem d ''Amount'' of Inl e \<Rightarrow> False | Inr xs \<Rightarrow> list_all is_number xs) \<and>
      (case getitem d ''Category'' of Inl e \<Rightarrow> False | Inr cs \<Rightarrow> list_all is_category cs))"

text \<open>
  The specification's aggregates are stated over the records of the ledger: here the
  (month, amount) pair of every record, in ledger order.
\<close>

definition month_amount :: "cell \<times> cell \<Rightarrow> (int \<times> rat) option" where
  "month_amount mx =
     (case fst mx of
        Period p \<Rightarrow> (case snd mx of Num a \<Rightarrow> Some (p, a) | _ \<Rightarrow> None)
      | _ \<Rightarrow> None)"

definition month_amounts :: "frame \<Rightarrow> (int \<times> rat) list" where
  "month_amounts d =
     (case getitem d ''Month'' of
        Inl e \<Rightarrow> []
      | Inr ms \<Rightarrow>
     (case getitem d ''Amount'' of
        Inl e \<Rightarrow> []
      | Inr xs \<Rightarrow> List.map_filter month_amount (zip ms xs)))"

text \<open>The sum of the amounts of the records of one group (a month, a category).\<close>

definition group_total :: "('k \<times> rat) list \<Rightarrow> 'k \<Rightarrow> rat" where
  "group_total recs k = sum_list (map snd (filter (\<lambda>r. fst r = k) recs))"



section \<open>Example inputs\<close>

text \<open>A parser that knows a few strings, for running the model on concrete inputs.\<close>

definition example_pandas :: pandas where
  "example_pandas =
     \<lparr>parse_datetime =
        (\<lambda>xs. map_of [(''2024-03-01'', Timestamp 2024 3 1 0),
                       (''2024-01-05'', Timestamp 2024 1 5 0),
                       (''2024-01-20'', Timestamp 2024 1 20 0),
                       (''2024-02-01'', Timestamp 2024 2 1 0)]),
      parse_number = map_of [(''15.5'', 31 / 2), (''10'', 10), (''-5'', - 5)],
      datetime_of_number = (\<lambda>n. None)\<rparr>"

text \<open>The session at start (lines 12 to 15): an empty ledger and no budget.\<close>

definition start_heap :: heap where
  "start_heap = [new_frame]"

definition start_session :: session where
  "start_session = \<lparr>df = 0, budget = 0\<rparr>"

text \<open>The frame \<open>pd.read_csv\<close> returns for the file
  \<^verbatim>\<open>Date,Category,Amount\<close> / \<^verbatim>\<open>2024-03-01,Food,15.5\<close> / \<^verbatim>\<open>bad-date,Food,10\<close>.\<close>

definition csv_two_rows :: frame where
  "csv_two_rows =
     \<lparr>columns = [''Date'', ''Category'', ''Amount''],
      rows = [[Str ''2024-03-01'', Str ''Food'', Num (31 / 2)],
              [Str ''bad-date'', Str ''Food'', Num 10]]\<rparr>"

text \<open>\<^verbatim>\<open>Date,Category,Amount,Description\<close> / \<^verbatim>\<open>2024-03-01,Food,15.5,\<close>: a blank
  description is read as a missing value.\<close>

definition csv_blank_description :: frame where
  "csv_blank_description =
     \<lparr>columns = [''Date'', ''Category'', ''Amount'', ''Description''],
      rows = [[Str ''2024-03-01'', Str ''Food'', Num (31 / 2), NaN]]\<rparr>"

text \<open>\<^verbatim>\<open>Date,Category,Description\<close> / \<^verbatim>\<open>2024-03-01,Food,lunch\<close>: no Amount column.\<close>

definition csv_no_amount :: frame where
  "csv_no_amount =
     \<lparr>columns = [''Date'', ''Category'', ''Description''],
      rows = [[Str ''2024-03-01'', Str ''Food'', Str ''lunch'']]\<rparr>"

text \<open>\<^verbatim>\<open>Date,Category,Amount,Description\<close> / \<^verbatim>\<open>2024-03-01,Food,-5,refund\<close>.\<close>

definition csv_negative_amount :: frame where
  "csv_negative_amount =
     \<lparr>columns = [''Date'', ''Category'', ''Amount'', ''Description''],
      rows = [[Str ''2024-03-01'', Str ''Food'', Num (- 5), Str ''refund'']]\<rparr>"

text \<open>The ledger after that upload into the session at start, and its cleaned form.\<close>

definition negative_ledger :: frame where
  "negative_ledger =
     \<lparr>columns = [''Date'', ''Category'', ''Amount'', ''Description''],
      rows = [[Datetime (Timestamp 2024 3 1 0), Str ''Food'', Num (- 5), Str ''refund'']]\<rparr>"

definition negative_cleaned :: frame where
  "negative_cleaned =
     \<lparr>columns = [''Date'', ''Category'', ''Amount'', ''Description'', ''Month''],
      rows = [[Datetime (Timestamp 2024 3 1 0), Str ''Food'', Num (- 5), Str ''refund'',
               Period 650]]\<rparr>"

text \<open>A ledger with 50 and 30 in January 2024, nothing in February and 10 in March, a
  date that does not parse, a lower-case category and an amount still a string.\<close>

definition example_ledger :: frame where
  "example_ledger =
     \<lparr>columns = [''Date'', ''Category'', ''Amount'', ''Description''],
      rows = [[Datetime (Timestamp 2024 1 5 0), Str ''Food'', Num 50, Str ''lunch''],
              [Str ''2024-01-20'', Str ''food'', Num 30, Str ''N/A''],
              [Str ''not a date'', Str ''Food'', Num 7, Str ''N/A''],
              [Datetime (Timestamp 2024 3 1 0), Str ''Transport'', Str ''10'', Str ''N/A'']]\<rparr>"

text \<open>The copy \<open>clean_data\<close> works on, after the two conversions.\<close>

definition example_converted :: frame where
  "example_converted =
     \<lparr>columns = [''Date'', ''Category'', ''Amount'', ''Description''],
      rows = [[Datetime (Timestamp 2024 1 5 0), Str ''Food'', Num 50, Str ''lunch''],
              [Datetime (Timestamp 2024 1 20 0), Str ''food'', Num 30, Str ''N/A''],
              [NaN, Str ''Food'', Num 7, Str ''N/A''],
              [Datetime (Timestamp 2024 3 1 0), Str ''Transport'', Num 10, Str ''N/A'']]\<rparr>"

definition example_cleaned :: frame where
  "example_cleaned =
     \<lparr>columns = [''Date'', ''Category'', ''Amount'', ''Description'', ''Month''],
      rows = [[Datetime (Timestamp 2024 1 5 0), Str ''Food'', Num 50, Str ''lunch'', Period 648],
              [Datetime (Timestamp 2024 1 20 0), Str ''Other'', Num 30, Str ''N/A'', Period 648],
              [Datetime (Timestamp 2024 3 1 0), Str ''Transport'', Num 10, Str ''N/A'',
               Period 650]]\<rparr>"

text \<open>The report exported for that ledger.\<close>

definition example_report :: "sheet list" where
  "example_report =
     [\<lparr>sheet_name = ''Expenses'',
       header = [''Date'', ''Category'', ''Amount'', ''Description'', ''Month''],
       body = rows example_cleaned\<rparr>,
      \<lparr>sheet_name = ''Category Summary'',
       header = [''Category'', ''Amount''],
       body = [[Str ''Food'', Num 50], [Str ''Other'', Num 30], [Str ''Transport'', Num 10]]\<rparr>,
      \<lparr>sheet_name = ''Monthly Summary'',
       header = [''Month'', ''Amount''],
       body = [[Period 648, Num 80], [Period 650, Num 10]]\<rparr>]"

definition example_session :: session where
  "example_session = \<lparr>df = 0, budget = 5\<rparr>"

text \<open>The cleaned ledgers of the specification's own example (section 8): 50 and 30 in
  January 2024 and 20 in February; and the January records alone.\<close>

definition spec_example_cleaned :: frame where
  "spec_example_cleaned =
     \<lparr>columns = [''Date'', ''Category'', ''Amount'', ''Description'', ''Month''],
      rows = [[Datetime (Timestamp 2024 1 5 0), Str ''Food'', Num 50, Str ''lunch'', Period 648],
              [Datetime (Timestamp 2024 1 20 0), Str ''Food'', Num 30, Str ''N/A'', Period 648],
              [Datetime (Timestamp 2024 2 1 0), Str ''Transport'', Num 20, Str ''N/A'',
               Period 649]]\<rparr>"

definition january_cleaned :: frame where
  "january_cleaned = spec_example_cleaned\<lparr>rows := take 2 (rows spec_example_cleaned)\<rparr>"

section \<open>Proofs\<close>

subsection \<open>Columns, assignment and dropna\<close>

lemma get_loc_Some: "get_loc cs c = Some i \<Longrightarrow> i < length cs \<and> cs ! i = c"
  by (induction cs arbitrary: i) (auto split: if_splits)

lemma get_loc_None: "get_loc cs c = None \<longleftrightarrow> c \<notin> set cs"
  by (induction cs) auto

lemma get_loc_append_Some: "get_loc cs c = Some i \<Longrightarrow> get_loc (cs @ ds) c = Some i"
  by (induction cs arbitrary: i) (auto split: if_splits)

lemma get_loc_append_new: "c \<notin> set cs \<Longrightarrow> get_loc (cs @ [c]) c = Some (length cs)"
  by (induction cs) auto

lemma get_loc_append_None: "get_loc cs c = None \<Longrightarrow> c \<noteq> d \<Longrightarrow> get_loc (cs @ [d]) c = None"
  by (induction cs) (auto split: if_splits)

lemma getitem_length: "getitem f c = Inr xs \<Longrightarrow> length xs = length (rows f)"
  by (auto simp: getitem_def split: option.splits)

lemma rectangular_setitem:
  "rectangular f \<Longrightarrow> length vs = length (rows f) \<Longrightarrow> rectangular (setitem f c vs)"
  by (auto simp: rectangular_def setitem_def list_all_iff get_loc_None split: option.splits dest!: set_zip_leftD)

lemma getitem_setitem_same:
  assumes r: "rectangular f" and l: "length vs = length (rows f)"
  shows "getitem (setitem f c vs) c = Inr vs"
proof (cases "get_loc (columns f) c")
  case None
  have "map (\<lambda>r. r ! length (columns f)) (map2 (\<lambda>r v. r @ [v]) (rows f) vs) = vs"
    using r l unfolding rectangular_def list_all_iff
    by (intro nth_equalityI) (auto simp: nth_append)
  moreover from None have "get_loc (columns f @ [c]) c = Some (length (columns f))"
    by (simp add: get_loc_append_new get_loc_None)
  ultimately show ?thesis using None
    by (simp add: getitem_def setitem_def)
next
  case (Some i)
  have "i < length (columns f)" using Some get_loc_Some by blast
  then have "map (\<lambda>r. r ! i) (map2 (\<lambda>r v. r[i := v]) (rows f) vs) = vs"
    using r l unfolding rectangular_def list_all_iff
    by (intro nth_equalityI) auto
  with Some show ?thesis
    by (simp add: getitem_def setitem_def)
qed

lemma getitem_setitem_other:
  assumes ne: "c' \<noteq> c" and r: "rectangular f" and l: "length vs = length (rows f)"
  shows "getitem (setitem f c vs) c' = getitem f c'"
proof (cases "get_loc (columns f) c")
  case None
  show ?thesis
  proof (cases "get_loc (columns f) c'")
    case N: None
    with None ne show ?thesis
      by (simp add: getitem_def setitem_def get_loc_append_None)
  next
    case (Some j)
    then have j: "j < length (columns f)" using get_loc_Some by blast
    have "map (\<lambda>r. r ! j) (map2 (\<lambda>r v. r @ [v]) (rows f) vs) = map (\<lambda>r. r ! j) (rows f)"
      using r l j unfolding rectangular_def list_all_iff
      by (intro nth_equalityI) (auto simp: nth_append)
    with None Some show ?thesis
      by (simp add: getitem_def setitem_def get_loc_append_Some)
  qed
next
  case (Some i)
  show ?thesis
  proof (cases "get_loc (columns f) c'")
    case None
    with Some show ?thesis by (simp add: getitem_def setitem_def)
  next
    case S: (Some j)
    have "i \<noteq> j" using Some S ne get_loc_Some by blast
    then have "map (\<lambda>r. r ! j) (map2 (\<lambda>r v. r[i := v]) (rows f) vs) = map (\<lambda>r. r ! j) (rows f)"
      using l by (intro nth_equalityI) auto
    with Some S show ?thesis by (simp add: getitem_def setitem_def)
  qed
qed

lemma no_missing_setitem:
  "no_missing f \<Longrightarrow> list_all (\<lambda>x. x \<noteq> NaN) vs \<Longrightarrow> no_missing (setitem f c vs)"
proof -
  assume a: "no_missing f" and b: "list_all (\<lambda>x. x \<noteq> NaN) vs"
  have "NaN \<notin> set (r @ [v]) \<and> NaN \<notin> set (r[i := v])" if "(r, v) \<in> set (zip (rows f) vs)" for r v i
  proof -
    from that have "r \<in> set (rows f)" "v \<in> set vs"
      by (auto dest: set_zip_leftD set_zip_rightD)
    with a b have "NaN \<notin> set r" "v \<noteq> NaN"
      by (auto simp: no_missing_def list_all_iff)
    then show ?thesis
      using set_update_subset_insert[of r i v] by auto
  qed
  then show ?thesis
    by (auto simp: no_missing_def setitem_def list_all_iff split: option.splits)
qed

lemma setitem_getitem_id:
  assumes "getitem f c = Inr xs"
  shows "setitem f c xs = f"
proof -
  from assms obtain i where i: "get_loc (columns f) c = Some i" and xs: "xs = map (\<lambda>r. r ! i) (rows f)"
    by (auto simp: getitem_def split: option.splits)
  have "map2 (\<lambda>r v. r[i := v]) (rows f) (map (\<lambda>r. r ! i) (rows f)) = rows f"
    by (intro nth_equalityI) auto
  with i xs show ?thesis by (simp add: setitem_def)
qed

lemma dropna_id: "no_missing f \<Longrightarrow> dropna f = f"
  by (simp add: dropna_def no_missing_def list_all_iff)

lemma no_missing_dropna: "no_missing (dropna f)"
  by (simp add: dropna_def no_missing_def list_all_iff)

lemma rectangular_dropna: "rectangular f \<Longrightarrow> rectangular (dropna f)"
  by (simp add: dropna_def rectangular_def list_all_iff)

lemma getitem_dropna:
  assumes "getitem f c = Inr xs" "rectangular f" "list_all Q xs"
  shows "\<exists>ys. getitem (dropna f) c = Inr ys \<and> list_all (\<lambda>x. Q x \<and> x \<noteq> NaN) ys"
proof -
  from assms(1) obtain i where i: "get_loc (columns f) c = Some i" and xs: "xs = map (\<lambda>r. r ! i) (rows f)"
    by (auto simp: getitem_def split: option.splits)
  have il: "i < length (columns f)" using i get_loc_Some by blast
  have "list_all (\<lambda>x. Q x \<and> x \<noteq> NaN) (map (\<lambda>r. r ! i) (filter (list_all (\<lambda>x. x \<noteq> NaN)) (rows f)))"
    using assms(2,3) il unfolding xs rectangular_def list_all_iff by auto
  with i show ?thesis by (simp add: getitem_def dropna_def)
qed



subsection \<open>clean_data, step by step\<close>

text \<open>
  The copy is the new object at the end of the heap; the two conversions change it in
  place, \<open>dropna\<close> allocates the frame that is returned, and the heap the call
  started from is a prefix of the heap it leaves.
\<close>

lemma clean_data_eq:
  assumes "r < length h"
  shows "clean_data P h r =
     (case getitem (h ! r) ''Date'' of
        Inl e \<Rightarrow> (h @ [h ! r], Inl e)
      | Inr dates \<Rightarrow>
      let f1 = setitem (h ! r) ''Date'' (to_datetime P dates) in
      case getitem f1 ''Amount'' of
        Inl e \<Rightarrow> (h @ [f1], Inl e)
      | Inr amounts \<Rightarrow>
      let f2 = setitem f1 ''Amount'' (to_numeric P amounts);
          f3 = dropna f2 in
      case getitem f3 ''Category'' of
        Inl e \<Rightarrow> (h @ [f2, f3], Inl e)
      | Inr cats \<Rightarrow>
      let f4 = setitem f3 ''Category'' (map category_or_other cats) in
      case getitem f4 ''Date'' of
        Inl e \<Rightarrow> (h @ [f2, f4], Inl e)
      | Inr dates' \<Rightarrow>
        (h @ [f2, setitem f4 ''Month'' (dt_to_period_M dates')], Inr (Suc (length h))))"
  using assms
  by (simp add: clean_data_def copy_def alloc_def Let_def nth_append list_update_append split: sum.splits)

lemma cleaned_eq:
  "cleaned P f =
     (case getitem f ''Date'' of
        Inl e \<Rightarrow> Inl e
      | Inr dates \<Rightarrow>
      let f1 = setitem f ''Date'' (to_datetime P dates) in
      case getitem f1 ''Amount'' of
        Inl e \<Rightarrow> Inl e
      | Inr amounts \<Rightarrow>
      let f3 = dropna (setitem f1 ''Amount'' (to_numeric P amounts)) in
      case getitem f3 ''Category'' of
        Inl e \<Rightarrow> Inl e
      | Inr cats \<Rightarrow>
      let f4 = setitem f3 ''Category'' (map category_or_other cats) in
      case getitem f4 ''Date'' of
        Inl e \<Rightarrow> Inl e
      | Inr dates' \<Rightarrow> Inr (setitem f4 ''Month'' (dt_to_period_M dates')))"
  by (simp add: cleaned_def clean_data_eq Let_def split: sum.splits)

lemma clean_data_cleaned:
  assumes "r < length h"
  shows "(case clean_data P h r of (h', Inl e) \<Rightarrow> Inl e | (h', Inr r') \<Rightarrow> Inr (h' ! r')) = cleaned P (h ! r)"
  using assms
  by (simp add: cleaned_eq clean_data_eq Let_def nth_append split: sum.splits)

lemma clean_data_heap:
  assumes "r < length h" "clean_data P h r = (h', res)"
  shows "take (length h) h' = h"
  using assms
  by (auto simp: clean_data_eq Let_def split: sum.splits)


subsection \<open>The invariant of the cleaned ledger\<close>

lemma datetime_cell_cases: "datetime_cell P xs x = NaN \<or> is_datetime (datetime_cell P xs x)"
  by (simp add: datetime_cell_def is_datetime_def split: cell.splits option.splits)

lemma numeric_cell_cases: "numeric_cell P x = NaN \<or> is_number (numeric_cell P x)"
  by (simp add: numeric_cell_def is_number_def split: cell.splits option.splits)

lemma is_category_or_other: "is_category (category_or_other x)"
  by (simp add: category_or_other_def is_category_def CATEGORIES_def split: cell.splits)

lemma datetime_cell_id: "is_datetime x \<Longrightarrow> datetime_cell P xs x = x"
  by (simp add: datetime_cell_def is_datetime_def split: cell.splits)

lemma numeric_cell_id: "is_number x \<Longrightarrow> numeric_cell P x = x"
  by (simp add: numeric_cell_def is_number_def split: cell.splits)

lemma category_or_other_id: "is_category x \<Longrightarrow> category_or_other x = x"
  by (simp add: category_or_other_def is_category_def split: cell.splits)

lemma period_cell_not_missing: "is_datetime x \<Longrightarrow> period_cell x \<noteq> NaN"
  by (simp add: period_cell_def is_datetime_def split: cell.splits)

lemma is_category_not_missing: "is_category x \<Longrightarrow> x \<noteq> NaN"
  by (auto simp: is_category_def)

lemma cleaned_clean_ledger:
  assumes rect: "rectangular f" and cl: "cleaned P f = Inr d"
  shows "clean_ledger d"
proof -
  from cl obtain dates where g0: "getitem f ''Date'' = Inr dates"
    by (auto simp: cleaned_eq split: sum.splits)
  define f1 where "f1 = setitem f ''Date'' (to_datetime P dates)"
  from cl g0 obtain amounts where g1: "getitem f1 ''Amount'' = Inr amounts"
    by (auto simp: cleaned_eq f1_def Let_def split: sum.splits)
  define f2 where "f2 = setitem f1 ''Amount'' (to_numeric P amounts)"
  define f3 where "f3 = dropna f2"
  from cl g0 g1 obtain cats where g3: "getitem f3 ''Category'' = Inr cats"
    by (auto simp: cleaned_eq f1_def[symmetric] f2_def[symmetric] f3_def[symmetric] Let_def split: sum.splits)
  define f4 where "f4 = setitem f3 ''Category'' (map category_or_other cats)"
  from cl g0 g1 g3 obtain dates' where g4: "getitem f4 ''Date'' = Inr dates'"
      and d: "d = setitem f4 ''Month'' (dt_to_period_M dates')"
    by (auto simp: cleaned_eq f1_def[symmetric] f2_def[symmetric] f3_def[symmetric] f4_def[symmetric]
        Let_def split: sum.splits)
  have l1: "length (to_datetime P dates) = length (rows f)"
    using getitem_length[OF g0] by (simp add: to_datetime_def)
  have r1: "rectangular f1"
    unfolding f1_def by (rule rectangular_setitem[OF rect l1])
  have d1: "getitem f1 ''Date'' = Inr (to_datetime P dates)"
    unfolding f1_def by (rule getitem_setitem_same[OF rect l1])
  have l2: "length (to_numeric P amounts) = length (rows f1)"
    using getitem_length[OF g1] by (simp add: to_numeric_def)
  have r2: "rectangular f2"
    unfolding f2_def by (rule rectangular_setitem[OF r1 l2])
  have a2: "getitem f2 ''Amount'' = Inr (to_numeric P amounts)"
    unfolding f2_def by (rule getitem_setitem_same[OF r1 l2])
  have d2: "getitem f2 ''Date'' = Inr (to_datetime P dates)"
    unfolding f2_def using getitem_setitem_other[OF _ r1 l2, of "''Date''" "''Amount''"] d1 by simp
  have "list_all (\<lambda>x. x = NaN \<or> is_datetime x) (to_datetime P dates)"
    by (simp add: to_datetime_def list_all_iff datetime_cell_cases)
  from getitem_dropna[OF d2 r2 this] obtain ds3 where
    d3: "getitem f3 ''Date'' = Inr ds3" and dt3: "list_all is_datetime ds3"
    by (auto simp: f3_def list_all_iff)
  have "list_all (\<lambda>x. x = NaN \<or> is_number x) (to_numeric P amounts)"
    by (simp add: to_numeric_def list_all_iff numeric_cell_cases)
  from getitem_dropna[OF a2 r2 this] obtain as3 where
    a3: "getitem f3 ''Amount'' = Inr as3" and nm3: "list_all is_number as3"
    by (auto simp: f3_def list_all_iff)
  have r3: "rectangular f3" unfolding f3_def by (rule rectangular_dropna[OF r2])
  have m3: "no_missing f3" unfolding f3_def by (rule no_missing_dropna)
  have l4: "length (map category_or_other cats) = length (rows f3)"
    using getitem_length[OF g3] by simp
  have r4: "rectangular f4" unfolding f4_def by (rule rectangular_setitem[OF r3 l4])
  have c4: "getitem f4 ''Category'' = Inr (map category_or_other cats)"
    unfolding f4_def by (rule getitem_setitem_same[OF r3 l4])
  have cc: "list_all is_category (map category_or_other cats)"
    by (simp add: list_all_iff is_category_or_other)
  have m4: "no_missing f4"
    unfolding f4_def using cc
    by (intro no_missing_setitem[OF m3]) (auto simp: list_all_iff dest: is_category_not_missing)
  have d4: "getitem f4 ''Date'' = Inr ds3"
    unfolding f4_def using getitem_setitem_other[OF _ r3 l4, of "''Date''" "''Category''"] d3 by simp
  have a4: "getitem f4 ''Amount'' = Inr as3"
    unfolding f4_def using getitem_setitem_other[OF _ r3 l4, of "''Amount''" "''Category''"] a3 by simp
  from d4 g4 have eq: "dates' = ds3" by simp
  have l5: "length (dt_to_period_M dates') = length (rows f4)"
    using getitem_length[OF g4] by (simp add: dt_to_period_M_def)
  have r5: "rectangular d" unfolding d by (rule rectangular_setitem[OF r4 l5])
  have mo: "getitem d ''Month'' = Inr (dt_to_period_M dates')"
    unfolding d by (rule getitem_setitem_same[OF r4 l5])
  have m5: "no_missing d"
    unfolding d using dt3 eq
    by (intro no_missing_setitem[OF m4]) (auto simp: list_all_iff dt_to_period_M_def dest: period_cell_not_missing)
  have d5: "getitem d ''Date'' = Inr ds3"
    unfolding d using getitem_setitem_other[OF _ r4 l5, of "''Date''" "''Month''"] d4 by simp
  have a5: "getitem d ''Amount'' = Inr as3"
    unfolding d using getitem_setitem_other[OF _ r4 l5, of "''Amount''" "''Month''"] a4 by simp
  have c5: "getitem d ''Category'' = Inr (map category_or_other cats)"
    unfolding d using getitem_setitem_other[OF _ r4 l5, of "''Category''" "''Month''"] c4 by simp
  show ?thesis
    unfolding clean_ledger_def using r5 m5 d5 a5 c5 mo dt3 nm3 cc eq by simp
qed

lemma cleaned_idem:
  assumes "clean_ledger d"
  shows "cleaned P d = Inr d"
proof -
  from assms obtain ds xs cs where
    m: "no_missing d" and
    gd: "getitem d ''Date'' = Inr ds" and dt: "list_all is_datetime ds" and
    gm: "getitem d ''Month'' = Inr (dt_to_period_M ds)" and
    ga: "getitem d ''Amount'' = Inr xs" and nm: "list_all is_number xs" and
    gc: "getitem d ''Category'' = Inr cs" and ct: "list_all is_category cs"
    by (auto simp: clean_ledger_def split: sum.splits)
  have 1: "to_datetime P ds = ds"
    using dt by (simp add: to_datetime_def list_all_iff map_idI datetime_cell_id)
  have 2: "to_numeric P xs = xs"
    using nm by (simp add: to_numeric_def list_all_iff map_idI numeric_cell_id)
  have 3: "map category_or_other cs = cs"
    using ct by (simp add: list_all_iff map_idI category_or_other_id)
  show ?thesis
    by (simp add: cleaned_eq gd 1 setitem_getitem_id ga 2 dropna_id[OF m] gc 3 gm)
qed

subsection \<open>Cleaning twice\<close>

lemmas eval_defs =
  clean_data_def copy_def alloc_def getitem_def setitem_def dropna_def
  to_datetime_def to_numeric_def dt_to_period_M_def datetime_cell_def numeric_cell_def
  period_cell_def category_or_other_def CATEGORIES_def month_ordinal_def

lemma clean_data_example:
  "clean_data example_pandas [example_ledger] 0 =
     ([example_ledger, example_converted, example_cleaned], Inr 2)"
  by (simp add: eval_defs example_pandas_def example_ledger_def example_converted_def
      example_cleaned_def)

lemma clean_data_ref:
  assumes "r < length h" "clean_data P h r = (h', Inr r')"
  shows "r' < length h'"
  using assms by (auto simp: clean_data_eq Let_def split: sum.splits)

text \<open>
  C2. Cleaning is deterministic and idempotent: the frame \<open>clean_data\<close> returns is a
  function of the content of the ledger it is given (\<open>cleaned\<close>, whatever else the heap
  holds and wherever the ledger lives), and calling \<open>clean_data\<close> on the frame it
  returned returns an equal frame.
\<close>

theorem clean_data_idempotent:
  assumes "r < length h" and "rectangular (h ! r)" and "clean_data P h r = (h', Inr r')"
  shows "cleaned P (h ! r) = Inr (h' ! r') \<and>
         (\<exists>h'' r''. clean_data P h' r' = (h'', Inr r'') \<and> h'' ! r'' = h' ! r')"
proof -
  have c: "cleaned P (h ! r) = Inr (h' ! r')"
    using clean_data_cleaned[OF assms(1), of P] assms(3) by simp
  then have "clean_ledger (h' ! r')"
    using cleaned_clean_ledger[OF assms(2)] by blast
  then have i: "cleaned P (h' ! r') = Inr (h' ! r')"
    by (rule cleaned_idem)
  have "r' < length h'"
    by (rule clean_data_ref[OF assms(1,3)])
  from clean_data_cleaned[OF this, of P] i
  have "\<exists>h'' r''. clean_data P h' r' = (h'', Inr r'') \<and> h'' ! r'' = h' ! r'"
    by (auto split: prod.splits sum.splits)
  with c show ?thesis by blast
qed

text \<open>The example ledger: three of its four records survive, and cleaning the result
  again changes nothing.\<close>

theorem clean_data_idempotent_witness:
  "cleaned example_pandas example_ledger = Inr example_cleaned \<and>
   (\<exists>h'' r''. clean_data example_pandas [example_ledger, example_converted, example_cleaned] 2
        = (h'', Inr r'') \<and> h'' ! r'' = example_cleaned)"
proof -
  have 1: "(0::nat) < length [example_ledger]" by simp
  have 2: "rectangular ([example_ledger] ! 0)"
    by (simp add: rectangular_def example_ledger_def)
  show ?thesis
    using clean_data_idempotent[OF 1 2 clean_data_example] by simp
qed

subsection \<open>The CSV upload\<close>

lemma columns_setitem:
  "columns (setitem f c vs) = (if c \<in> set (columns f) then columns f else columns f @ [c])"
  by (auto simp: setitem_def get_loc_None[symmetric] split: option.splits)

lemma columns_dropna: "columns (dropna f) = columns f"
  by (simp add: dropna_def)

lemma getitem_Inl: "(\<exists>e. getitem f c = Inl e) \<longleftrightarrow> c \<notin> set (columns f)"
  by (auto simp: getitem_def get_loc_None[symmetric] split: option.splits)

lemma getitem_Inr: "c \<in> set (columns f) \<Longrightarrow> \<exists>xs. getitem f c = Inr xs"
  using getitem_Inl[of f c] by (cases "getitem f c") auto

lemmas upload_defs =
  upload_csv_def frame_get_def call_fillna_def fillna_def concat_frames_def reindex_def
  getitem_def setitem_def dropna_def alloc_def
  to_datetime_def to_numeric_def datetime_cell_def numeric_cell_def
  category_or_other_def CATEGORIES_def Let_def

text \<open>
  C7. The claim: uploading the header \<open>Date,Category,Amount\<close> with the rows
  \<open>2024-03-01,Food,15.5\<close> and \<open>bad-date,Food,10\<close> appends one record and reports a
  count of 1. The code: the file has no Description column, so \<open>df_upload.get\<close> returns
  the string default, line 59 raises AttributeError, and the run ends before line 60
  appends anything or line 61 reports a count.
\<close>

theorem upload_csv_without_description_raises:
  "upload_csv example_pandas start_heap start_session csv_two_rows =
     (start_heap, start_session, Inl (AttributeError ''fillna''))"
  by (simp add: upload_defs example_pandas_def csv_two_rows_def start_heap_def
      start_session_def new_frame_def)

text \<open>
  C5. The claim: a record with an empty description and a valid date and amount is kept,
  with the placeholder \<open>N/A\<close>. The code: in an upload, \<open>dropna\<close> (line 57) runs before
  \<open>fillna\<close> (line 59), so the row whose only missing value is its description is
  dropped: nothing is appended and the count reported is 0.
\<close>

theorem upload_csv_blank_description_dropped:
  "upload_csv example_pandas start_heap start_session csv_blank_description =
     ([new_frame, new_frame], \<lparr>df = 1, budget = 0\<rparr>, Inr [Uploaded 0])"
  by (simp add: upload_defs example_pandas_def csv_blank_description_def start_heap_def
      start_session_def new_frame_def)

text \<open>
  C6. The claim: an upload that lacks a required column is rejected with an error signal,
  before any normalization and without appending a row. The code: the guard of line 54
  has no else branch; nothing is normalized or appended, and no message of any kind is
  shown.
\<close>

theorem upload_csv_missing_column_silent:
  "upload_csv example_pandas start_heap start_session csv_no_amount =
     (start_heap, start_session, Inr [])"
  by (simp add: upload_csv_def csv_no_amount_def)

text \<open>
  C1. The claim: every record of the cleaned ledger has a valid date, a numeric
  non-negative amount and a category of the fixed set. The code: the upload keeps a
  negative amount (only the Add Expense form checks \<open>amount > 0\<close>), and \<open>clean_data\<close>
  keeps it too. The date, the number and the category are as claimed
  (\<open>clean_data_records_valid\<close> below).
\<close>

theorem negative_amount_kept:
  "upload_csv example_pandas start_heap start_session csv_negative_amount =
     ([new_frame, negative_ledger], \<lparr>df = 1, budget = 0\<rparr>, Inr [Uploaded 1]) \<and>
   cleaned example_pandas negative_ledger = Inr negative_cleaned \<and>
   getitem negative_cleaned ''Amount'' = Inr [Num (- 5)] \<and>
   \<not> list_all is_nonneg_number [Num (- 5)]"
  by (simp add: upload_defs cleaned_def eval_defs example_pandas_def csv_negative_amount_def
      start_heap_def start_session_def new_frame_def negative_ledger_def negative_cleaned_def
      is_nonneg_number_def)

text \<open>The three upload results above hold for every frame of that shape.\<close>

lemma upload_csv_guard_fails:
  assumes "\<not> {''Date'', ''Category'', ''Amount''} \<subseteq> set (columns u)"
  shows "upload_csv P h s u = (h, s, Inr [])"
  using assms by (auto simp: upload_csv_def)

lemma upload_csv_without_description:
  assumes req: "{''Date'', ''Category'', ''Amount''} \<subseteq> set (columns u)"
      and nd: "''Description'' \<notin> set (columns u)"
  shows "upload_csv P h s u = (h, s, Inl (AttributeError ''fillna''))"
proof -
  obtain dates where g0: "getitem u ''Date'' = Inr dates"
    using getitem_Inr[of "''Date''" u] req by auto
  define u1 where "u1 = setitem u ''Date'' (to_datetime P dates)"
  have c1: "columns u1 = columns u" using req by (simp add: u1_def columns_setitem)
  obtain amounts where g1: "getitem u1 ''Amount'' = Inr amounts"
    using getitem_Inr[of "''Amount''" u1] req c1 by auto
  define u3 where "u3 = dropna (setitem u1 ''Amount'' (to_numeric P amounts))"
  have c3: "columns u3 = columns u" using req c1 by (simp add: u3_def columns_setitem columns_dropna)
  obtain cats where g3: "getitem u3 ''Category'' = Inr cats"
    using getitem_Inr[of "''Category''" u3] req c3 by auto
  define u4 where "u4 = setitem u3 ''Category'' (map category_or_other cats)"
  have c4: "columns u4 = columns u" using req c3 by (simp add: u4_def columns_setitem)
  obtain e where g4: "getitem u4 ''Description'' = Inl e"
    using getitem_Inl[of u4 "''Description''"] nd c4 by auto
  show ?thesis
    using req g0 g1 g3 g4
    by (simp add: upload_csv_def Let_def u1_def[symmetric] u3_def[symmetric] u4_def[symmetric]
        frame_get_def call_fillna_def)
qed

subsection \<open>The records of a cleaned ledger\<close>

lemma month_amounts_zip:
  assumes "length ms = length xs"
      and "list_all (\<lambda>m. \<exists>p. m = Period p) ms" and "list_all is_number xs"
  shows "map (\<lambda>r. Period (fst r)) (List.map_filter month_amount (zip ms xs)) = ms \<and>
         map (\<lambda>r. Num (snd r)) (List.map_filter month_amount (zip ms xs)) = xs"
  using assms
proof (induction ms xs rule: list_induct2)
  case Nil
  then show ?case by (simp add: List.map_filter_simps)
next
  case (Cons m ms x xs)
  then obtain p a where "m = Period p" "x = Num a"
    by (cases x) (auto simp: is_number_def)
  with Cons show ?case
    by (simp add: List.map_filter_simps month_amount_def)
qed

lemma clean_ledger_records:
  assumes "clean_ledger d"
  shows "getitem d ''Month'' = Inr (map (\<lambda>r. Period (fst r)) (month_amounts d))"
    and "getitem d ''Amount'' = Inr (map (\<lambda>r. Num (snd r)) (month_amounts d))"
    and "length (month_amounts d) = length (rows d)"
proof -
  from assms obtain ds xs where
    gd: "getitem d ''Date'' = Inr ds" and dt: "list_all is_datetime ds" and
    gm: "getitem d ''Month'' = Inr (dt_to_period_M ds)" and
    ga: "getitem d ''Amount'' = Inr xs" and nm: "list_all is_number xs"
    by (auto simp: clean_ledger_def split: sum.splits)
  have len: "length (dt_to_period_M ds) = length xs"
    using getitem_length[OF gm] getitem_length[OF ga] by simp
  have per: "list_all (\<lambda>m. \<exists>p. m = Period p) (dt_to_period_M ds)"
    using dt by (auto simp: dt_to_period_M_def list_all_iff period_cell_def is_datetime_def
        split: cell.splits)
  have ma: "month_amounts d = List.map_filter month_amount (zip (dt_to_period_M ds) xs)"
    by (simp add: month_amounts_def gm ga)
  from month_amounts_zip[OF len per nm] ma gm ga
  show "getitem d ''Month'' = Inr (map (\<lambda>r. Period (fst r)) (month_amounts d))"
    and "getitem d ''Amount'' = Inr (map (\<lambda>r. Num (snd r)) (month_amounts d))"
    by simp_all
  then show "length (month_amounts d) = length (rows d)"
    using getitem_length[of d "''Amount''"] by fastforce
qed

lemma key_records:
  assumes "length ks = length xs"
      and "list_all (\<lambda>k. \<exists>a. k = K a) ks" and "list_all is_number xs"
  shows "\<exists>recs. ks = map (\<lambda>r. K (fst r)) recs \<and> xs = map (\<lambda>r. Num (snd r)) recs"
  using assms
proof (induction ks xs rule: list_induct2)
  case Nil
  then show ?case by simp
next
  case (Cons k ks x xs)
  then have "\<exists>recs. ks = map (\<lambda>r. K (fst r)) recs \<and> xs = map (\<lambda>r. Num (snd r)) recs"
    by simp
  then obtain recs where r: "ks = map (\<lambda>r. K (fst r)) recs" "xs = map (\<lambda>r. Num (snd r)) recs"
    by blast
  from Cons obtain a n where "k = K a" "x = Num n"
    by (cases x) (auto simp: is_number_def)
  with r have "k # ks = map (\<lambda>r. K (fst r)) ((a, n) # recs) \<and> x # xs = map (\<lambda>r. Num (snd r)) ((a, n) # recs)"
    by simp
  then show ?case by (rule exI)
qed

subsection \<open>Sums within groups\<close>

lemma series_sum_Num: "series_sum (map (\<lambda>r. Num (snd r)) recs) = sum_list (map snd recs)"
  by (induction recs) (auto simp: series_sum_def number_of_def)

lemma group_sum_filter:
  assumes "\<forall>a. key_of (K a) = Some a"
  shows "series_sum (map snd (filter (\<lambda>kv. fst kv = Some k)
       (zip (map key_of (map (\<lambda>r. K (fst r)) recs)) (map (\<lambda>r. Num (snd r)) recs)))) = group_total recs k"
  using assms by (induction recs) (auto simp: series_sum_def number_of_def group_total_def)

lemma map_filter_keys:
  assumes "\<forall>a. key_of (K a) = Some a"
  shows "List.map_filter key_of (map (\<lambda>r. K (fst r)) recs) = map fst recs"
  using assms by (induction recs) (auto simp: List.map_filter_simps)

lemma groupby_sum_records:
  assumes "getitem f by = Inr (map (\<lambda>r. K (fst r)) recs)"
      and "getitem f col = Inr (map (\<lambda>r. Num (snd r)) recs)"
      and "\<forall>a. key_of (K a) = Some a"
  shows "groupby_sum key_of f by col =
           Inr (map (\<lambda>k. (k, group_total recs k)) (sort (remdups (map fst recs))))"
proof -
  note k = assms(3)
  have 1: "List.map_filter key_of (map (\<lambda>r. K (fst r)) recs) = map fst recs"
    using map_filter_keys[of key_of K recs] k by simp
  have 2: "series_sum (map snd (filter (\<lambda>kv. fst kv = Some a)
       (zip (map key_of (map (\<lambda>r. K (fst r)) recs)) (map (\<lambda>r. Num (snd r)) recs)))) = group_total recs a" for a
    using group_sum_filter[of key_of K a recs] k by simp
  show ?thesis
    unfolding groupby_sum_def Let_def assms(1,2) by (simp only: sum.case 1 2)
qed

lemma group_total_sum:
  assumes "finite A" "fst ` set recs \<subseteq> A"
  shows "(\<Sum>k\<in>A. group_total recs k) = sum_list (map snd recs)"
  using assms(2)
proof (induction recs)
  case Nil
  then show ?case by (simp add: group_total_def)
next
  case (Cons r recs)
  have "(\<Sum>k\<in>A. group_total (r # recs) k) =
        (\<Sum>k\<in>A. (if fst r = k then snd r else 0) + group_total recs k)"
    by (intro sum.cong) (auto simp: group_total_def)
  also have "\<dots> = (\<Sum>k\<in>A. if fst r = k then snd r else 0) + (\<Sum>k\<in>A. group_total recs k)"
    by (simp add: sum.distrib)
  also have "(\<Sum>k\<in>A. if fst r = k then snd r else 0) = snd r"
    using Cons.prems assms(1) by (simp add: sum.delta')
  finally show ?case using Cons by simp
qed

lemma sum_list_group_totals:
  "sum_list (map (group_total recs) (sort (remdups (map fst recs)))) = sum_list (map snd recs)"
proof -
  have "sum_list (map (group_total recs) (sort (remdups (map fst recs)))) =
        (\<Sum>k\<in>set (sort (remdups (map fst recs))). group_total recs k)"
    by (intro sum_list_distinct_conv_sum_set) simp
  also have "\<dots> = (\<Sum>k\<in>fst ` set recs. group_total recs k)" by simp
  also have "\<dots> = sum_list (map snd recs)" by (intro group_total_sum) auto
  finally show ?thesis .
qed

subsection \<open>The aggregates of a cleaned ledger\<close>

lemma period_key_Period: "\<forall>a. period_key (Period a) = Some a"
  by (simp add: period_key_def)

lemma str_key_Str: "\<forall>a. str_key (Str a) = Some a"
  by (simp add: str_key_def)

lemma monthly_sum_records:
  assumes "clean_ledger d"
  shows "monthly_sum d =
           Inr (map (\<lambda>k. (k, group_total (month_amounts d) k))
                  (sort (remdups (map fst (month_amounts d)))))"
  unfolding monthly_sum_def
  using groupby_sum_records[OF clean_ledger_records(1,2)[OF assms] period_key_Period] .


lemma snd_group_totals: "map snd (map (\<lambda>k. (k, g k)) ks) = map g ks"
  by simp

lemma cat_sum_total:
  assumes "clean_ledger d"
  shows "\<exists>cs. cat_sum d = Inr cs \<and> sum_list (map snd cs) = sum_list (map snd (month_amounts d))"
proof -
  from assms obtain xs cs where
    ga: "getitem d ''Amount'' = Inr xs" and nm: "list_all is_number xs" and
    gc: "getitem d ''Category'' = Inr cs" and ct: "list_all is_category cs"
    by (auto simp: clean_ledger_def split: sum.splits)
  have len: "length cs = length xs"
    using getitem_length[OF ga] getitem_length[OF gc] by simp
  have "\<exists>a. k = Str a" if "is_category k" for k
    using that by (cases k) (auto simp: is_category_def)
  then have "list_all (\<lambda>k. \<exists>a. k = Str a) cs"
    using ct by (auto simp: list_all_iff)
  from key_records[OF len this nm] obtain recs where
    r: "cs = map (\<lambda>r. Str (fst r)) recs" "xs = map (\<lambda>r. Num (snd r)) recs"
    by blast
  have g: "cat_sum d = Inr (map (\<lambda>k. (k, group_total recs k)) (sort (remdups (map fst recs))))"
    unfolding cat_sum_def
    using groupby_sum_records[OF gc[unfolded r] ga[unfolded r] str_key_Str] .
  have "sum_list (map snd recs) = sum_list (map snd (month_amounts d))"
    using ga clean_ledger_records(2)[OF assms] series_sum_Num[of recs]
      series_sum_Num[of "month_amounts d"] r by simp
  with g show ?thesis
    by (simp add: snd_group_totals sum_list_group_totals del: map_map)
qed




subsection \<open>The budget alert\<close>






subsection \<open>The example ledger\<close>

lemma rectangular_example: "rectangular example_ledger"
  by (simp add: rectangular_def example_ledger_def)

lemma cleaned_example: "cleaned example_pandas example_ledger = Inr example_cleaned"
  by (simp add: cleaned_def clean_data_example)




lemma export_example: "export_report example_cleaned = Inr example_report"
  by (simp add: export_report_def to_excel_def summary_to_excel_def cat_sum_def monthly_sum_def
      groupby_sum_def getitem_def series_sum_def number_of_def str_key_def period_key_def
      List.map_filter_simps example_cleaned_def example_report_def Let_def)


lemma getitem_Inr_mem: "getitem f c = Inr xs \<Longrightarrow> c \<in> set (columns f)"
  using getitem_Inl[of f c] by auto

lemma cleaned_columns:
  assumes "cleaned P f = Inr d"
  shows "columns d = (if ''Month'' \<in> set (columns f) then columns f else columns f @ [''Month''])"
proof -
  from assms obtain dates where g0: "getitem f ''Date'' = Inr dates"
    by (auto simp: cleaned_eq split: sum.splits)
  define f1 where "f1 = setitem f ''Date'' (to_datetime P dates)"
  from assms g0 obtain amounts where g1: "getitem f1 ''Amount'' = Inr amounts"
    by (auto simp: cleaned_eq f1_def Let_def split: sum.splits)
  define f3 where "f3 = dropna (setitem f1 ''Amount'' (to_numeric P amounts))"
  from assms g0 g1 obtain cats where g3: "getitem f3 ''Category'' = Inr cats"
    by (auto simp: cleaned_eq f1_def[symmetric] f3_def[symmetric] Let_def split: sum.splits)
  define f4 where "f4 = setitem f3 ''Category'' (map category_or_other cats)"
  from assms g0 g1 g3 obtain dates' where d: "d = setitem f4 ''Month'' (dt_to_period_M dates')"
    by (auto simp: cleaned_eq f1_def[symmetric] f3_def[symmetric] f4_def[symmetric]
        Let_def split: sum.splits)
  have c1: "columns f1 = columns f"
    using getitem_Inr_mem[OF g0] by (simp add: f1_def columns_setitem)
  have c3: "columns f3 = columns f"
    using getitem_Inr_mem[OF g1] c1 by (simp add: f3_def columns_setitem columns_dropna)
  have c4: "columns f4 = columns f"
    using getitem_Inr_mem[OF g3] c3 by (simp add: f4_def columns_setitem)
  show ?thesis by (simp add: d columns_setitem c4)
qed

text \<open>
  C8, as the code has it. For every cleaned ledger the first sheet of the report is named
  Expenses, its header is the columns of the cleaned ledger (the columns of the raw
  ledger, followed by the derived Month column when the raw ledger has none) and its rows
  are the records of the cleaned ledger, in order.
\<close>

theorem export_expenses_sheet:
  assumes "rectangular f" and "cleaned P f = Inr d"
  shows "\<exists>category_summary monthly_summary.
           export_report d =
             Inr [\<lparr>sheet_name = ''Expenses'', header = columns d, body = rows d\<rparr>,
                  category_summary, monthly_summary] \<and>
           columns d =
             (if ''Month'' \<in> set (columns f) then columns f else columns f @ [''Month'']) \<and>
           length (rows d) = num_entries d"
proof -
  have c: "clean_ledger d" by (rule cleaned_clean_ledger[OF assms])
  from cat_sum_total[OF c] obtain cs where cs: "cat_sum d = Inr cs" by blast
  show ?thesis
    using cs monthly_sum_records[OF c] cleaned_columns[OF assms(2)]
    by (simp add: export_report_def to_excel_def num_entries_def)
qed

theorem export_expenses_sheet_witness:
  "rectangular example_ledger \<and> cleaned example_pandas example_ledger = Inr example_cleaned \<and>
   (\<exists>category_summary monthly_summary.
      export_report example_cleaned =
        Inr [\<lparr>sheet_name = ''Expenses'',
              header = [''Date'', ''Category'', ''Amount'', ''Description'', ''Month''],
              body = rows example_cleaned\<rparr>,
             category_summary, monthly_summary]) \<and>
   num_entries example_cleaned = 3"
  using export_expenses_sheet[OF rectangular_example cleaned_example]
    rectangular_example cleaned_example
  by (auto simp: example_cleaned_def example_ledger_def)

text \<open>C8 as stated fails: the Expenses sheet of the example has a Month column.\<close>

theorem export_includes_month:
  "cleaned example_pandas example_ledger = Inr example_cleaned \<and>
   export_report example_cleaned = Inr example_report \<and>
   sheet_name (example_report ! 0) = ''Expenses'' \<and>
   header (example_report ! 0) = [''Date'', ''Category'', ''Amount'', ''Description'', ''Month''] \<and>
   header (example_report ! 0) \<noteq> [''Date'', ''Category'', ''Amount'', ''Description'']"
  by (simp add: cleaned_example export_example example_report_def)




text \<open>
  C10. \<open>clean_data\<close> writes to its copy only: the ledger it was given is the same frame
  after the call. Viewing the dashboard leaves the session (the ledger reference and the
  budget) and every frame that existed as they were; setting the budget leaves the
  ledger.
\<close>

theorem dashboard_frame:
  assumes "df s < length h" and "dashboard P h s = (h', s', out)"
  shows "s' = s \<and> take (length h) h' = h \<and> h' ! df s = h ! df s \<and>
         fst (clean_data P h (df s)) ! df s = h ! df s \<and>
         df (set_budget s b) = df s"
proof -
  obtain h1 res where cd: "clean_data P h (df s) = (h1, res)"
    by (cases "clean_data P h (df s)") auto
  have t: "take (length h) h1 = h"
    by (rule clean_data_heap[OF assms(1) cd])
  have hs: "h' = h1 \<and> s' = s"
    using assms(2) cd by (auto simp: dashboard_def Let_def split: sum.splits if_splits)
  have "h1 ! df s = take (length h) h1 ! df s"
    using assms(1) by simp
  with t have n: "h1 ! df s = h ! df s" by simp
  show ?thesis
    using hs t n cd by (simp add: set_budget_def)
qed

theorem dashboard_frame_witness:
  "df example_session < length [example_ledger] \<and>
   fst (snd (dashboard example_pandas [example_ledger] example_session)) = example_session \<and>
   take 1 (fst (dashboard example_pandas [example_ledger] example_session)) = [example_ledger] \<and>
   fst (clean_data example_pandas [example_ledger] 0) ! 0 = example_ledger"
proof -
  have 1: "df example_session < length [example_ledger]"
    by (simp add: example_session_def)
  have 2: "dashboard example_pandas [example_ledger] example_session =
      (fst (dashboard example_pandas [example_ledger] example_session),
       fst (snd (dashboard example_pandas [example_ledger] example_session)),
       snd (snd (dashboard example_pandas [example_ledger] example_session)))"
    by simp
  show ?thesis
    using dashboard_frame[OF 1 2, of 0] 1
    by (simp add: example_session_def)
qed

text \<open>What holds of C1: the date, the number and the category of every cleaned record.\<close>

lemma clean_data_records_valid:
  assumes "r < length h" and "rectangular (h ! r)" and "clean_data P h r = (h', Inr r')"
  shows "(\<exists>ds. getitem (h' ! r') ''Date'' = Inr ds \<and> list_all is_datetime ds) \<and>
         (\<exists>xs. getitem (h' ! r') ''Amount'' = Inr xs \<and> list_all is_number xs) \<and>
         (\<exists>cs. getitem (h' ! r') ''Category'' = Inr cs \<and> list_all is_category cs)"
proof -
  have "cleaned P (h ! r) = Inr (h' ! r')"
    using clean_data_cleaned[OF assms(1), of P] assms(3) by simp
  then have "clean_ledger (h' ! r')"
    using cleaned_clean_ledger[OF assms(2)] by blast
  then show ?thesis
    by (auto simp: clean_ledger_def split: sum.splits)
qed

subsection \<open>Further checks of the model\<close>

text \<open>\<open>clean_data\<close> returns a frame whenever the ledger has the three columns it reads.\<close>

lemma clean_data_returns:
  assumes "r < length h" and "{''Date'', ''Amount'', ''Category''} \<subseteq> set (columns (h ! r))"
  shows "\<exists>h' r'. clean_data P h r = (h', Inr r')"
proof -
  define f where "f = h ! r"
  obtain dates where g0: "getitem f ''Date'' = Inr dates"
    using getitem_Inr[of "''Date''" f] assms(2) by (auto simp: f_def)
  define f1 where "f1 = setitem f ''Date'' (to_datetime P dates)"
  have c1: "columns f1 = columns f"
    using getitem_Inr_mem[OF g0] by (simp add: f1_def columns_setitem)
  obtain amounts where g1: "getitem f1 ''Amount'' = Inr amounts"
    using getitem_Inr[of "''Amount''" f1] assms(2) c1 by (auto simp: f_def)
  define f2 where "f2 = setitem f1 ''Amount'' (to_numeric P amounts)"
  define f3 where "f3 = dropna f2"
  have c3: "columns f3 = columns f"
    using getitem_Inr_mem[OF g1] c1 by (simp add: f3_def f2_def columns_setitem columns_dropna)
  obtain cats where g3: "getitem f3 ''Category'' = Inr cats"
    using getitem_Inr[of "''Category''" f3] assms(2) c3 by (auto simp: f_def)
  define f4 where "f4 = setitem f3 ''Category'' (map category_or_other cats)"
  have c4: "columns f4 = columns f"
    using getitem_Inr_mem[OF g3] c3 by (simp add: f4_def columns_setitem)
  obtain dates' where g4: "getitem f4 ''Date'' = Inr dates'"
    using getitem_Inr[of "''Date''" f4] assms(2) c4 by (auto simp: f_def)
  show ?thesis
    using g0 g1 g3 g4
    by (simp add: clean_data_eq[OF assms(1)] Let_def f_def[symmetric] f1_def[symmetric]
        f2_def[symmetric] f3_def[symmetric] f4_def[symmetric])
qed

text \<open>The Add Expense form does put the placeholder in for an empty description, and
  refuses an amount that is not positive.\<close>

lemma add_expense_empty_description:
  "add_expense start_heap start_session (Timestamp 2024 1 5 0) ''Food'' 50 [] =
     ([new_frame,
       \<lparr>columns = [''Date'', ''Category'', ''Amount'', ''Description''],
        rows = [[Datetime (Timestamp 2024 1 5 0), Str ''Food'', Num 50, Str ''N/A'']]\<rparr>],
      \<lparr>df = 1, budget = 0\<rparr>, Added)"
  by (simp add: add_expense_def alloc_def concat_frames_def reindex_def start_heap_def
      start_session_def new_frame_def Let_def)

lemma add_expense_rejects:
  "amount \<le> 0 \<Longrightarrow> add_expense h s d c amount description = (h, s, AmountMustBePositive)"
  by (simp add: add_expense_def)

text \<open>The whole dashboard on the example ledger, with a budget of 5.\<close>

lemma dashboard_example:
  "dashboard example_pandas [example_ledger] example_session =
     ([example_ledger, example_converted, example_cleaned], example_session,
      Inr (Dashboard
        \<lparr>alert = Some (BudgetAlert 10 5 5), metric_total = 90, metric_avg = Some 45,
         metric_entries = 3,
         table = \<lparr>columns = [''Date'', ''Category'', ''Amount'', ''Description''],
                  rows = map (take 4) (rows example_cleaned)\<rparr>,
         pie = [(''Food'', 50), (''Other'', 30), (''Transport'', 10)],
         bar = [(648, 80), (650, 10)],
         report = example_report\<rparr>))"
proof -
  have ne: "rows example_cleaned \<noteq> []" by (simp add: example_cleaned_def)
  have a: "budget_alert example_cleaned 5 = Inr (Some (BudgetAlert 10 5 5))"
    by (simp add: budget_alert_def series_max_def series_eq_def getitem_mask_def getitem_def
        series_sum_def number_of_def period_key_def List.map_filter_simps example_cleaned_def
        Let_def)
  have t: "total_spent example_cleaned = Inr 90"
    by (simp add: total_spent_def getitem_def series_sum_def number_of_def example_cleaned_def)
  have ms: "monthly_sum example_cleaned = Inr [(648, 80), (650, 10)]"
    by (simp add: monthly_sum_def groupby_sum_def getitem_def series_sum_def number_of_def
        period_key_def List.map_filter_simps example_cleaned_def Let_def)
  have cs: "cat_sum example_cleaned = Inr [(''Food'', 50), (''Other'', 30), (''Transport'', 10)]"
    by (simp add: cat_sum_def groupby_sum_def getitem_def series_sum_def number_of_def
        str_key_def List.map_filter_simps example_cleaned_def Let_def)
  have m: "avg_monthly example_cleaned = Inr (Some 45)"
    by (simp add: avg_monthly_def ms mean_def)
  have tb: "select_columns example_cleaned [''Date'', ''Category'', ''Amount'', ''Description''] =
      Inr \<lparr>columns = [''Date'', ''Category'', ''Amount'', ''Description''],
           rows = map (take 4) (rows example_cleaned)\<rparr>"
    by (simp add: select_columns_def example_cleaned_def)
  show ?thesis
    using ne
    by (simp add: dashboard_def clean_data_example a t ms cs m tb export_example
        example_session_def num_entries_def)
       (simp add: example_cleaned_def)
qed

text \<open>The specification's example: with a budget of 70 the latest month is February, whose
  total of 20 raises no alert; with January alone and a budget of 75 the alert reports
  80, over by 5.\<close>

lemma budget_alert_spec_example:
  "budget_alert spec_example_cleaned 70 = Inr None \<and>
   budget_alert january_cleaned 75 = Inr (Some (BudgetAlert 80 75 5))"
  by (simp add: budget_alert_def series_max_def series_eq_def getitem_mask_def getitem_def
      series_sum_def number_of_def period_key_def List.map_filter_simps
      spec_example_cleaned_def january_cleaned_def Let_def)

end
